theory Spec2Isabelle
  imports Main "HOL-Library.Word" "HOL-Library.Multiset"
begin

section \<open>Python values used by \<open>nodes/text_to_speech.py\<close>\<close>

text \<open>
  A Python \<open>str\<close> is modelled as a \<open>string\<close>: a list of characters, each character being the
  code point it denotes, in the range U+0000 .. U+00FF. A \<open>bytes\<close> object is a list of
  8-bit words. Python integers are unbounded: \<open>int\<close>. An exception is a value: every
  operation that can raise returns \<open>py_error + 'a\<close>, with \<open>Inl\<close> the exception.
\<close>

type_synonym byte = "8 word"

datatype py_error = ValueError | IndexError | StructError

subsection \<open>\<open>str\<close> methods\<close>

definition code_point :: "char \<Rightarrow> nat" where
  "code_point c = of_char c"

text \<open>\<open>str.isspace\<close> on one character: the characters \<open>str.strip()\<close> removes.\<close>

definition is_space :: "char \<Rightarrow> bool" where
  "is_space c = (code_point c \<in> {9, 10, 11, 12, 13, 28, 29, 30, 31, 32, 133, 160})"

definition py_strip :: "string \<Rightarrow> string" where
  "py_strip s = rev (dropWhile is_space (rev (dropWhile is_space s)))"

text \<open>\<open>str.lower\<close>: A..Z and the capital letters U+00C0 .. U+00DE (U+00D7 is the
  multiplication sign) move up by 32; nothing else changes.\<close>

definition lower_char :: "char \<Rightarrow> char" where
  "lower_char c =
     (let n = code_point c
      in if (65 \<le> n \<and> n \<le> 90) \<or> (192 \<le> n \<and> n \<le> 222 \<and> n \<noteq> 215)
         then char_of (n + 32) else c)"

definition py_lower :: "string \<Rightarrow> string" where
  "py_lower s = map lower_char s"

definition startswith :: "string \<Rightarrow> string \<Rightarrow> bool" where
  "startswith s pre = (take (length pre) s = pre)"

text \<open>\<open>s.split(sep)\<close> for a one-character separator: always at least one piece.\<close>

fun py_split :: "char \<Rightarrow> string \<Rightarrow> string list" where
  "py_split sep [] = [[]]"
| "py_split sep (c # cs) =
     (if c = sep then [] # py_split sep cs
      else (case py_split sep cs of
              [] \<Rightarrow> [[c]]
            | w # ws \<Rightarrow> (c # w) # ws))"

text \<open>\<open>s.split(sep, 1)\<close>: cut at the first separator only.\<close>

definition py_split1 :: "char \<Rightarrow> string \<Rightarrow> string list" where
  "py_split1 sep s =
     (if sep \<in> set s
      then [takeWhile (\<lambda>c. c \<noteq> sep) s, tl (dropWhile (\<lambda>c. c \<noteq> sep) s)]
      else [s])"

text \<open>\<open>xs[i]\<close> for a non-negative index: IndexError out of range.\<close>

definition py_index :: "'a list \<Rightarrow> nat \<Rightarrow> py_error + 'a" where
  "py_index xs i = (if i < length xs then Inr (xs ! i) else Inl IndexError)"

subsection \<open>\<open>int(str)\<close>\<close>

text \<open>
  \<open>int(s)\<close> in base 10: optional white space, an optional sign, decimal digits with single
  underscores between digits, optional white space. The white space \<open>int\<close> skips is
  tab .. carriage return, the space, U+0085 and U+00A0 (not U+001C .. U+001F, which
  \<open>str.strip\<close> removes). More than \<open>int_max_str_digits\<close> digits is a ValueError (the
  interpreter's default limit on integer string conversion).
\<close>

definition int_space :: "char \<Rightarrow> bool" where
  "int_space c = (code_point c \<in> {9, 10, 11, 12, 13, 32, 133, 160})"

definition is_digit :: "char \<Rightarrow> bool" where
  "is_digit c = (48 \<le> code_point c \<and> code_point c \<le> 57)"

definition digit_val :: "char \<Rightarrow> int" where
  "digit_val c = int (code_point c) - 48"

definition int_max_str_digits :: nat where
  "int_max_str_digits = 4300"

definition digit_or_underscore :: "char \<Rightarrow> bool" where
  "digit_or_underscore c = (is_digit c \<or> c = CHR ''_'')"

fun double_underscore :: "string \<Rightarrow> bool" where
  "double_underscore (c # d # cs) =
     ((c = CHR ''_'' \<and> d = CHR ''_'') \<or> double_underscore (d # cs))"
| "double_underscore cs = False"

definition decimal_value :: "string \<Rightarrow> int" where
  "decimal_value ds = foldl (\<lambda>a c. 10 * a + digit_val c) 0 ds"

definition py_int :: "string \<Rightarrow> py_error + int" where
  "py_int s =
     (let t = dropWhile int_space s;
          neg = (t \<noteq> [] \<and> hd t = CHR ''-'');
          u = (if t \<noteq> [] \<and> (hd t = CHR ''-'' \<or> hd t = CHR ''+'') then tl t else t);
          body = takeWhile digit_or_underscore u;
          rest = dropWhile digit_or_underscore u;
          ds = filter is_digit body
      in if body = [] \<or> hd body = CHR ''_'' \<or> last body = CHR ''_''
            \<or> double_underscore body
            \<or> int_max_str_digits < length ds
            \<or> dropWhile int_space rest \<noteq> []
         then Inl ValueError
         else Inr (if neg then - decimal_value ds else decimal_value ds))"

section \<open>\<open>parse_audio_mime_type\<close>\<close>

record params =
  bits_per_sample :: int
  rate :: int

text \<open>\<open>try: x = int(p.split(sep, 1)[1])  except Exception: pass\<close>: the value to assign,
  or the exception that the handler swallows.\<close>

definition int_after :: "char \<Rightarrow> string \<Rightarrow> py_error + int" where
  "int_after sep p =
     (case py_index (py_split1 sep p) 1 of
        Inl e \<Rightarrow> Inl e
      | Inr t \<Rightarrow> py_int t)"

text \<open>One pass of the loop body over the segment \<open>p\<close>: both \<open>if\<close>s are tried, in the
  source's order, and an exception inside a \<open>try\<close> leaves the variable as it was.\<close>

definition parse_part :: "params \<Rightarrow> string \<Rightarrow> py_error + params" where
  "parse_part st p =
     (let st1 = (if startswith (py_lower p) ''rate=''
                 then (case int_after CHR ''='' p of
                         Inr v \<Rightarrow> st\<lparr>rate := v\<rparr>
                       | Inl e \<Rightarrow> st)
                 else st);
          st2 = (if startswith p ''audio/L''
                 then (case int_after CHR ''L'' p of
                         Inr v \<Rightarrow> st1\<lparr>bits_per_sample := v\<rparr>
                       | Inl e \<Rightarrow> st1)
                 else st1)
      in Inr st2)"

text \<open>A \<open>for\<close> loop whose body may raise: the first exception ends the loop.\<close>

fun py_for :: "('s \<Rightarrow> 'a \<Rightarrow> py_error + 's) \<Rightarrow> 'a list \<Rightarrow> 's \<Rightarrow> py_error + 's" where
  "py_for body [] st = Inr st"
| "py_for body (x # xs) st =
     (case body st x of
        Inl e \<Rightarrow> Inl e
      | Inr st' \<Rightarrow> py_for body xs st')"

text \<open>\<open>[p.strip() for p in (mime_type or "").split(";")]\<close>; \<open>None\<close> is \<open>None\<close>.\<close>

definition mime_parts :: "string option \<Rightarrow> string list" where
  "mime_parts mime_type =
     map py_strip (py_split CHR '';'' (case mime_type of None \<Rightarrow> [] | Some s \<Rightarrow> s))"

definition parse_audio_mime_type :: "string option \<Rightarrow> py_error + params" where
  "parse_audio_mime_type mime_type =
     py_for parse_part (mime_parts mime_type) \<lparr>bits_per_sample = 16, rate = 24000\<rparr>"

section \<open>\<open>convert_to_wav\<close>\<close>

subsection \<open>\<open>struct.pack\<close> for the format \<open><4sI4s4sIHHIIHH4sI\<close>\<close>

text \<open>Little-endian bytes of a non-negative integer, least significant first.\<close>

fun le_bytes :: "nat \<Rightarrow> int \<Rightarrow> byte list" where
  "le_bytes 0 x = []"
| "le_bytes (Suc n) x = word_of_int (x mod 256) # le_bytes n (x div 256)"

text \<open>The value a little-endian byte sequence denotes.\<close>

fun le_value :: "byte list \<Rightarrow> int" where
  "le_value [] = 0"
| "le_value (b # bs) = uint b + 256 * le_value bs"

text \<open>The arguments of the format codes \<open>4s\<close>, \<open>I\<close> and \<open>H\<close>. \<open><\<close> is little-endian,
  standard sizes, no padding. An integer outside the range of its code is a
  \<open>struct.error\<close>; a byte string is cut or zero-padded to its width.\<close>

datatype pack_arg = S4 "byte list" | U32 int | U16 int

fun pack_item :: "pack_arg \<Rightarrow> py_error + byte list" where
  "pack_item (S4 bs) = Inr (take 4 (bs @ replicate 4 0))"
| "pack_item (U32 x) = (if 0 \<le> x \<and> x < 2 ^ 32 then Inr (le_bytes 4 x) else Inl StructError)"
| "pack_item (U16 x) = (if 0 \<le> x \<and> x < 2 ^ 16 then Inr (le_bytes 2 x) else Inl StructError)"

fun struct_pack :: "pack_arg list \<Rightarrow> py_error + byte list" where
  "struct_pack [] = Inr []"
| "struct_pack (a # as) =
     (case pack_item a of
        Inl e \<Rightarrow> Inl e
      | Inr bs \<Rightarrow> (case struct_pack as of
                    Inl e \<Rightarrow> Inl e
                  | Inr cs \<Rightarrow> Inr (bs @ cs)))"

text \<open>A \<open>bytes\<close> literal of ASCII characters.\<close>

definition bytes_of :: "string \<Rightarrow> byte list" where
  "bytes_of s = map (\<lambda>c. of_nat (code_point c)) s"

subsection \<open>The encoder\<close>

text \<open>\<open>x or d\<close> on integers: \<open>0\<close> is false.\<close>

definition py_or :: "int \<Rightarrow> int \<Rightarrow> int" where
  "py_or x d = (if x = 0 then d else x)"

text \<open>The numeric header fields, as the source computes them from the payload length and
  the two PCM parameters.\<close>

record wav_fields =
  f_chunk_size :: int
  f_num_channels :: int
  f_sample_rate :: int
  f_byte_rate :: int
  f_block_align :: int
  f_bits_per_sample :: int
  f_data_size :: int

definition header_fields :: "nat \<Rightarrow> int \<Rightarrow> int \<Rightarrow> wav_fields" where
  "header_fields len bps sr =
     (let num_channels = 1;
          data_size = int len;
          bytes_per_sample = bps div 8;
          block_align = num_channels * bytes_per_sample;
          byte_rate = sr * block_align;
          chunk_size = 36 + data_size
      in \<lparr>f_chunk_size = chunk_size, f_num_channels = num_channels, f_sample_rate = sr,
          f_byte_rate = byte_rate, f_block_align = block_align, f_bits_per_sample = bps,
          f_data_size = data_size\<rparr>)"

definition pack_header :: "wav_fields \<Rightarrow> py_error + byte list" where
  "pack_header f =
     struct_pack
       [S4 (bytes_of ''RIFF''), U32 (f_chunk_size f), S4 (bytes_of ''WAVE''),
        S4 (bytes_of ''fmt ''), U32 16, U16 1, U16 (f_num_channels f),
        U32 (f_sample_rate f), U32 (f_byte_rate f), U16 (f_block_align f),
        U16 (f_bits_per_sample f), S4 (bytes_of ''data''), U32 (f_data_size f)]"

text \<open>Lines 45 to 67 of the source: the WAV container for the PCM parameters \<open>bps\<close>
  (\<open>bits_per_sample\<close>) and \<open>sr\<close> (\<open>sample_rate\<close>).\<close>

definition encode_wav :: "byte list \<Rightarrow> int \<Rightarrow> int \<Rightarrow> py_error + byte list" where
  "encode_wav audio_data bps sr =
     (case pack_header (header_fields (length audio_data) bps sr) of
        Inl e \<Rightarrow> Inl e
      | Inr header \<Rightarrow> Inr (header @ audio_data))"

text \<open>Lines 42 to 44, then the rest: \<open>int(params.get(k) or d)\<close> on an integer entry.\<close>

definition convert_to_wav :: "byte list \<Rightarrow> string option \<Rightarrow> py_error + byte list" where
  "convert_to_wav audio_data mime_type =
     (case parse_audio_mime_type mime_type of
        Inl e \<Rightarrow> Inl e
      | Inr ps \<Rightarrow>
          encode_wav audio_data (py_or (bits_per_sample ps) 16) (py_or (rate ps) 24000))"

section \<open>The payload and extension chosen by \<open>text_to_speech\<close>\<close>




section \<open>Notions used to state the properties\<close>

text \<open>The value the segment \<open>p\<close> assigns to \<open>rate\<close> in one pass of the loop body: \<open>None\<close>
  when the first \<open>if\<close> does not match or its \<open>try\<close> raises.\<close>

definition rate_set_by :: "string \<Rightarrow> int option" where
  "rate_set_by p =
     (if startswith (py_lower p) ''rate=''
      then (case int_after CHR ''='' p of Inr v \<Rightarrow> Some v | Inl e \<Rightarrow> None)
      else None)"

text \<open>The same for \<open>bits_per_sample\<close> and the second \<open>if\<close>.\<close>

definition bits_set_by :: "string \<Rightarrow> int option" where
  "bits_set_by p =
     (if startswith p ''audio/L''
      then (case int_after CHR ''L'' p of Inr v \<Rightarrow> Some v | Inl e \<Rightarrow> None)
      else None)"

text \<open>\<open>str(i)\<close> for an integer: its decimal digits, most significant first, after a
  minus sign when it is negative.\<close>

fun decimal_digits :: "nat \<Rightarrow> string" where
  "decimal_digits n =
     (if n < 10 then [char_of (48 + n)]
      else decimal_digits (n div 10) @ [char_of (48 + n mod 10)])"

declare decimal_digits.simps [simp del]

definition py_str :: "int \<Rightarrow> string" where
  "py_str i = (if i < 0 then CHR ''-'' # decimal_digits (nat (- i)) else decimal_digits (nat i))"

text \<open>The value of a variable after a run of assignments \<open>f x\<close>, where \<open>None\<close> assigns
  nothing: the last assignment, or the initial value \<open>d\<close>.\<close>

fun last_update :: "('a \<Rightarrow> 'b option) \<Rightarrow> 'a list \<Rightarrow> 'b \<Rightarrow> 'b" where
  "last_update f [] d = d"
| "last_update f (x # xs) d = last_update f xs (case f x of None \<Rightarrow> d | Some v \<Rightarrow> v)"

text \<open>Every integer of the header is in the range of its format code (\<open>I\<close>: 32 bits,
  \<open>H\<close>: 16 bits, unsigned).\<close>

definition fields_fit :: "wav_fields \<Rightarrow> bool" where
  "fields_fit f =
     (0 \<le> f_chunk_size f \<and> f_chunk_size f < 2 ^ 32
      \<and> 0 \<le> f_num_channels f \<and> f_num_channels f < 2 ^ 16
      \<and> 0 \<le> f_sample_rate f \<and> f_sample_rate f < 2 ^ 32
      \<and> 0 \<le> f_byte_rate f \<and> f_byte_rate f < 2 ^ 32
      \<and> 0 \<le> f_block_align f \<and> f_block_align f < 2 ^ 16
      \<and> 0 \<le> f_bits_per_sample f \<and> f_bits_per_sample f < 2 ^ 16
      \<and> 0 \<le> f_data_size f \<and> f_data_size f < 2 ^ 32)"

text \<open>The 44 bytes of the RIFF/WAVE header for given field values.\<close>

definition header_layout :: "wav_fields \<Rightarrow> byte list" where
  "header_layout f =
     bytes_of ''RIFF'' @ le_bytes 4 (f_chunk_size f) @ bytes_of ''WAVE''
     @ bytes_of ''fmt '' @ le_bytes 4 16 @ le_bytes 2 1 @ le_bytes 2 (f_num_channels f)
     @ le_bytes 4 (f_sample_rate f) @ le_bytes 4 (f_byte_rate f)
     @ le_bytes 2 (f_block_align f) @ le_bytes 2 (f_bits_per_sample f)
     @ bytes_of ''data'' @ le_bytes 4 (f_data_size f)"





section \<open>The parser: one pass, the loop, the result\<close>

lemma parse_part_eq:
  "parse_part st p =
     Inr \<lparr>bits_per_sample = (case bits_set_by p of None \<Rightarrow> bits_per_sample st | Some v \<Rightarrow> v),
          rate = (case rate_set_by p of None \<Rightarrow> rate st | Some v \<Rightarrow> v)\<rparr>"
  by (simp add: parse_part_def rate_set_by_def bits_set_by_def Let_def split: sum.splits)

lemma py_for_parse_part:
  "py_for parse_part ps st =
     Inr \<lparr>bits_per_sample = last_update bits_set_by ps (bits_per_sample st),
          rate = last_update rate_set_by ps (rate st)\<rparr>"
  by (induction ps arbitrary: st) (simp_all add: parse_part_eq)

lemma parse_eq:
  "parse_audio_mime_type m =
     Inr \<lparr>bits_per_sample = last_update bits_set_by (mime_parts m) 16,
          rate = last_update rate_set_by (mime_parts m) 24000\<rparr>"
  by (simp add: parse_audio_mime_type_def py_for_parse_part)

lemma last_update_append:
  "last_update f (xs @ ys) d = last_update f ys (last_update f xs d)"
  by (induction xs arbitrary: d) simp_all

lemma last_update_none:
  "\<forall>x\<in>set xs. f x = None \<Longrightarrow> last_update f xs d = d"
  by (induction xs arbitrary: d) simp_all

lemma last_update_last:
  "f x = Some v \<Longrightarrow> \<forall>y\<in>set ys. f y = None \<Longrightarrow> last_update f (xs @ x # ys) d = v"
  by (simp add: last_update_append last_update_none)

lemma last_update_cases:
  "last_update f xs d = d \<and> (\<forall>x\<in>set xs. f x = None)
   \<or> (\<exists>x\<in>set xs. f x = Some (last_update f xs d))"
proof (induction xs arbitrary: d rule: rev_induct)
  case Nil
  then show ?case by simp
next
  case (snoc x xs)
  show ?case
  proof (cases "f x")
    case None
    with snoc[of d] show ?thesis by (auto simp: last_update_append)
  next
    case (Some v)
    then show ?thesis by (auto simp: last_update_append)
  qed
qed

lemma last_update_agree:
  assumes "set xs = set ys"
    and "\<forall>x\<in>set xs. \<forall>y\<in>set xs. f x \<noteq> None \<longrightarrow> f y \<noteq> None \<longrightarrow> f x = f y"
  shows "last_update f xs d = last_update f ys d"
proof -
  consider (a) "last_update f xs d = d" "\<forall>x\<in>set xs. f x = None"
    | (b) x where "x \<in> set xs" "f x = Some (last_update f xs d)"
    using last_update_cases[of f xs d] by blast
  then show ?thesis
  proof cases
    case a
    then have "\<forall>y\<in>set ys. f y = None" using assms(1) by simp
    then have "last_update f ys d = d" by (rule last_update_none)
    with a(1) show ?thesis by simp
  next
    case b
    then have "\<not> (\<forall>y\<in>set ys. f y = None)" using assms(1) by auto
    with last_update_cases[of f ys d]
    obtain y where y: "y \<in> set ys" "f y = Some (last_update f ys d)" by blast
    from y(1) assms(1) have "y \<in> set xs" by simp
    with assms(2) b y(2) have "f x = f y" by (metis option.distinct(1))
    with b(2) y(2) show ?thesis by simp
  qed
qed

lemma set_mime_parts_reordered:
  assumes "mset (py_split CHR '';'' s) = mset (py_split CHR '';'' t)"
  shows "set (mime_parts (Some s)) = set (mime_parts (Some t))"
proof -
  have "set (py_split CHR '';'' s) = set (py_split CHR '';'' t)"
    using assms by (rule mset_eq_setD)
  then show ?thesis by (simp add: mime_parts_def)
qed

subsection \<open>A segment that starts with a casing of \<open>rate=\<close>\<close>

lemma code_point_lower_char:
  "code_point (lower_char c) =
     (if (65 \<le> code_point c \<and> code_point c \<le> 90)
         \<or> (192 \<le> code_point c \<and> code_point c \<le> 222 \<and> code_point c \<noteq> 215)
      then code_point c + 32 else code_point c)"
  by (auto simp: lower_char_def code_point_def Let_def)

lemma code_point_inj: "code_point a = code_point b \<Longrightarrow> a = b"
  by (simp add: code_point_def)

lemma lower_char_eq_sign: "lower_char x = CHR ''='' \<Longrightarrow> x = CHR ''=''"
proof -
  assume "lower_char x = CHR ''=''"
  then have "code_point (lower_char x) = 61" by (simp add: code_point_def)
  then have "code_point x = 61"
    by (simp add: code_point_lower_char split: if_splits)
  then show ?thesis by (intro code_point_inj) (simp add: code_point_def)
qed

lemma lower_char_not_sign:
  "lower_char x = y \<Longrightarrow> y \<in> set ''rate'' \<Longrightarrow> x \<noteq> CHR ''=''"
  by (auto simp: lower_char_def code_point_def)

lemma lower_char_r_not_a: "lower_char x = CHR ''r'' \<Longrightarrow> x \<noteq> CHR ''a''"
  by (auto simp: lower_char_def code_point_def)

lemma lower_rate_shape:
  assumes "py_lower c = ''rate=''"
  shows "\<exists>c0 c1 c2 c3. c = [c0, c1, c2, c3, CHR ''='']
          \<and> c0 \<noteq> CHR ''='' \<and> c1 \<noteq> CHR ''='' \<and> c2 \<noteq> CHR ''='' \<and> c3 \<noteq> CHR ''='' \<and> c0 \<noteq> CHR ''a''"
proof -
  from assms obtain c0 c1 c2 c3 c4 where c: "c = [c0, c1, c2, c3, c4]"
    and l: "lower_char c0 = CHR ''r''" "lower_char c1 = CHR ''a''" "lower_char c2 = CHR ''t''"
      "lower_char c3 = CHR ''e''" "lower_char c4 = CHR ''=''"
    by (auto simp: py_lower_def map_eq_Cons_conv)
  from l(5) have "c4 = CHR ''=''" by (rule lower_char_eq_sign)
  moreover from l(1) have "c0 \<noteq> CHR ''=''" using lower_char_not_sign[of c0] by simp
  moreover from l(1) have "c0 \<noteq> CHR ''a''" by (rule lower_char_r_not_a)
  moreover from l(2) have "c1 \<noteq> CHR ''=''" using lower_char_not_sign[of c1] by simp
  moreover from l(3) have "c2 \<noteq> CHR ''=''" using lower_char_not_sign[of c2] by simp
  moreover from l(4) have "c3 \<noteq> CHR ''=''" using lower_char_not_sign[of c3] by simp
  ultimately show ?thesis using c by simp
qed

lemma rate_segment:
  assumes "py_lower c = ''rate=''"
  shows "startswith (py_lower (c @ t)) ''rate=''"
    and "int_after CHR ''='' (c @ t) = py_int t"
    and "\<not> startswith (c @ t) ''audio/L''"
proof -
  from lower_rate_shape[OF assms] obtain c0 c1 c2 c3 where c: "c = [c0, c1, c2, c3, CHR ''='']"
    and n: "c0 \<noteq> CHR ''=''" "c1 \<noteq> CHR ''=''" "c2 \<noteq> CHR ''=''" "c3 \<noteq> CHR ''=''" "c0 \<noteq> CHR ''a''"
    by blast
  have len: "length c = 5" using c by simp
  show "startswith (py_lower (c @ t)) ''rate=''"
    using assms len by (simp add: startswith_def py_lower_def)
  show "int_after CHR ''='' (c @ t) = py_int t"
    using c n by (simp add: int_after_def py_split1_def py_index_def)
  show "\<not> startswith (c @ t) ''audio/L''"
    using c n by (simp add: startswith_def)
qed

subsection \<open>\<open>int\<close> reads what \<open>str\<close> writes, up to the limit on digits\<close>

lemma code_point_digit: "k < 10 \<Longrightarrow> code_point (char_of (48 + k)) = 48 + (k :: nat)"
  by (simp add: code_point_def)

lemma is_digit_char_of: "k < 10 \<Longrightarrow> is_digit (char_of (48 + (k :: nat)))"
  by (simp add: is_digit_def code_point_digit)

lemma digit_val_char_of: "k < 10 \<Longrightarrow> digit_val (char_of (48 + (k :: nat))) = int k"
  by (simp add: digit_val_def code_point_digit)

lemma decimal_digits_small: "n < 10 \<Longrightarrow> decimal_digits n = [char_of (48 + n)]"
  by (subst decimal_digits.simps) simp

lemma decimal_digits_large:
  "\<not> n < 10 \<Longrightarrow> decimal_digits n = decimal_digits (n div 10) @ [char_of (48 + n mod 10)]"
  by (subst decimal_digits.simps) simp

lemma decimal_digits_digits: "c \<in> set (decimal_digits n) \<Longrightarrow> is_digit c"
proof (induction n arbitrary: c rule: decimal_digits.induct)
  case (1 n)
  show ?case
  proof (cases "n < 10")
    case True
    with "1.prems" show ?thesis by (simp add: decimal_digits_small is_digit_char_of)
  next
    case False
    with "1.prems" have "c \<in> set (decimal_digits (n div 10)) \<or> c = char_of (48 + n mod 10)"
      by (auto simp: decimal_digits_large)
    moreover have "is_digit (char_of (48 + n mod 10))"
      by (rule is_digit_char_of) simp
    ultimately show ?thesis
      using "1.IH"[OF False] by blast
  qed
qed

lemma decimal_digits_nonempty: "decimal_digits n \<noteq> []"
  by (cases "n < 10") (simp_all add: decimal_digits_small decimal_digits_large)

lemma decimal_value_snoc: "decimal_value (ds @ [c]) = 10 * decimal_value ds + digit_val c"
  by (simp add: decimal_value_def)

lemma decimal_value_digits: "decimal_value (decimal_digits n) = int n"
proof (induction n rule: decimal_digits.induct)
  case (1 n)
  show ?case
  proof (cases "n < 10")
    case True
    then show ?thesis
      by (simp add: decimal_digits_small decimal_value_def digit_val_char_of)
  next
    case False
    have m: "n mod 10 < 10" by simp
    have "decimal_value (decimal_digits n)
        = 10 * decimal_value (decimal_digits (n div 10)) + digit_val (char_of (48 + n mod 10))"
      using False by (simp add: decimal_digits_large decimal_value_snoc)
    also have "\<dots> = 10 * int (n div 10) + int (n mod 10)"
      using "1.IH"[OF False] digit_val_char_of[OF m] by simp
    also have "\<dots> = int (10 * (n div 10) + n mod 10)"
      by (simp only: of_nat_add of_nat_mult of_nat_numeral)
    also have "\<dots> = int n" by (simp only: mult_div_mod_eq)
    finally show ?thesis .
  qed
qed

lemma digit_not_other:
  "is_digit c \<Longrightarrow> \<not> int_space c \<and> c \<noteq> CHR ''_'' \<and> c \<noteq> CHR ''-'' \<and> c \<noteq> CHR ''+''"
  by (auto simp: is_digit_def int_space_def code_point_def)

lemma no_double_underscore: "\<forall>c\<in>set ds. c \<noteq> CHR ''_'' \<Longrightarrow> \<not> double_underscore ds"
  by (induction ds rule: double_underscore.induct) simp_all

lemma py_int_body:
  assumes "ds \<noteq> []" and "\<forall>c\<in>set ds. is_digit c" and "length ds \<le> int_max_str_digits"
  shows "takeWhile digit_or_underscore ds = ds"
    and "dropWhile digit_or_underscore ds = []"
    and "filter is_digit ds = ds"
    and "hd ds \<noteq> CHR ''_''" and "last ds \<noteq> CHR ''_''"
    and "\<not> double_underscore ds"
proof -
  show "takeWhile digit_or_underscore ds = ds"
    using assms(2) by (simp add: takeWhile_eq_all_conv digit_or_underscore_def)
  show "dropWhile digit_or_underscore ds = []"
    using assms(2) by (simp add: dropWhile_eq_Nil_conv digit_or_underscore_def)
  show "filter is_digit ds = ds"
    using assms(2) by (simp add: filter_id_conv)
  have "is_digit (hd ds)" "is_digit (last ds)" using assms(1,2) by simp_all
  then show "hd ds \<noteq> CHR ''_''" "last ds \<noteq> CHR ''_''" using digit_not_other by blast+
  show "\<not> double_underscore ds"
    using assms(2) digit_not_other by (intro no_double_underscore) blast
qed

lemma py_int_digits:
  assumes "ds \<noteq> []" and "\<forall>c\<in>set ds. is_digit c" and "length ds \<le> int_max_str_digits"
  shows "py_int ds = Inr (decimal_value ds)"
    and "py_int (CHR ''-'' # ds) = Inr (- decimal_value ds)"
proof -
  from assms(1,2) have d: "is_digit (hd ds)" by simp
  then have n: "\<not> int_space (hd ds)" "hd ds \<noteq> CHR ''-''" "hd ds \<noteq> CHR ''+''"
    using digit_not_other by blast+
  from assms(1) n(1) have t: "dropWhile int_space ds = ds" by (cases ds) simp_all
  have m: "dropWhile int_space (CHR ''-'' # ds) = CHR ''-'' # ds"
    by (simp add: int_space_def code_point_def)
  note b = py_int_body[OF assms]
  have l: "\<not> int_max_str_digits < length ds" using assms(3) by simp
  show "py_int ds = Inr (decimal_value ds)"
    unfolding py_int_def Let_def t by (simp only: n b l assms(1) simp_thms if_False if_True dropWhile.simps)
  show "py_int (CHR ''-'' # ds) = Inr (- decimal_value ds)"
    unfolding py_int_def Let_def m
    by (simp only: b l assms(1) simp_thms if_False if_True dropWhile.simps list.sel list.distinct not_False_eq_True)
qed

lemma py_int_py_str:
  assumes "length (decimal_digits (nat \<bar>i\<bar>)) \<le> int_max_str_digits"
  shows "py_int (py_str i) = Inr i"
proof (cases "i < 0")
  case True
  then have a: "nat \<bar>i\<bar> = nat (- i)" by simp
  have "py_int (CHR ''-'' # decimal_digits (nat (- i))) = Inr (- decimal_value (decimal_digits (nat (- i))))"
    using assms unfolding a
    by (intro py_int_digits decimal_digits_nonempty) (auto dest: decimal_digits_digits)
  with True show ?thesis by (simp add: py_str_def decimal_value_digits)
next
  case False
  then have a: "nat \<bar>i\<bar> = nat i" by simp
  have "py_int (decimal_digits (nat i)) = Inr (decimal_value (decimal_digits (nat i)))"
    using assms unfolding a
    by (intro py_int_digits decimal_digits_nonempty) (auto dest: decimal_digits_digits)
  with False show ?thesis by (simp add: py_str_def decimal_value_digits)
qed

subsection \<open>A numeral with more digits than the limit\<close>

lemma py_int_too_long:
  assumes "\<forall>c\<in>set ds. is_digit c" and "int_max_str_digits < length ds"
  shows "py_int ds = Inl ValueError"
    and "py_int (CHR ''-'' # ds) = Inl ValueError"
proof -
  from assms(2) have ne: "ds \<noteq> []" by auto
  with assms(1) have "is_digit (hd ds)" by simp
  then have n: "\<not> int_space (hd ds)" "hd ds \<noteq> CHR ''-''" "hd ds \<noteq> CHR ''+''"
    using digit_not_other by blast+
  from ne n(1) have t: "dropWhile int_space ds = ds" by (cases ds) simp_all
  have m: "dropWhile int_space (CHR ''-'' # ds) = CHR ''-'' # ds"
    by (simp add: int_space_def code_point_def)
  have tw: "takeWhile digit_or_underscore ds = ds"
    using assms(1) by (simp add: takeWhile_eq_all_conv digit_or_underscore_def)
  have fl: "filter is_digit ds = ds"
    using assms(1) by (simp add: filter_id_conv)
  show "py_int ds = Inl ValueError"
    unfolding py_int_def Let_def t
    by (simp only: n tw fl assms(2) ne simp_thms if_False if_True)
  show "py_int (CHR ''-'' # ds) = Inl ValueError"
    unfolding py_int_def Let_def m
    by (simp only: tw fl assms(2) ne simp_thms if_False if_True list.sel list.distinct
        not_False_eq_True)
qed

lemma py_int_py_str_too_long:
  assumes "int_max_str_digits < length (decimal_digits (nat \<bar>i\<bar>))"
  shows "py_int (py_str i) = Inl ValueError"
proof (cases "i < 0")
  case True
  then have a: "nat \<bar>i\<bar> = nat (- i)" by simp
  have "py_int (CHR ''-'' # decimal_digits (nat (- i))) = Inl ValueError"
    using assms unfolding a by (intro py_int_too_long) (auto dest: decimal_digits_digits)
  with True show ?thesis by (simp add: py_str_def)
next
  case False
  then have a: "nat \<bar>i\<bar> = nat i" by simp
  have "py_int (decimal_digits (nat i)) = Inl ValueError"
    using assms unfolding a by (intro py_int_too_long) (auto dest: decimal_digits_digits)
  with False show ?thesis by (simp add: py_str_def)
qed

lemma char_of_0_1: "char_of (48 :: nat) = CHR ''0''" "char_of (49 :: nat) = CHR ''1''"
  by code_simp+

lemma decimal_digits_power10: "decimal_digits (10 ^ k) = CHR ''1'' # replicate k CHR ''0''"
proof (induction k)
  case 0
  show ?case by (simp add: decimal_digits_small char_of_0_1)
next
  case (Suc k)
  have big: "\<not> (10 :: nat) ^ Suc k < 10" by simp
  have "decimal_digits (10 ^ Suc k)
      = decimal_digits (10 ^ Suc k div 10) @ [char_of (48 + (10 :: nat) ^ Suc k mod 10)]"
    using big by (rule decimal_digits_large)
  also have "\<dots> = decimal_digits (10 ^ k) @ [CHR ''0'']" by (simp add: char_of_0_1)
  also have "\<dots> = CHR ''1'' # replicate (Suc k) CHR ''0''"
    by (simp add: Suc.IH replicate_append_same)
  finally show ?case .
qed

lemma py_str_power10: "py_str (10 ^ k) = CHR ''1'' # replicate k CHR ''0''"
proof -
  have n: "nat ((10 :: int) ^ k) = 10 ^ k" by (simp add: nat_power_eq)
  have p: "\<not> (10 :: int) ^ k < 0" by simp
  show ?thesis by (simp only: py_str_def n p decimal_digits_power10 if_False)
qed

lemma length_digits_power10: "length (decimal_digits (nat \<bar>(10 :: int) ^ k\<bar>)) = Suc k"
proof -
  have "nat \<bar>(10 :: int) ^ k\<bar> = 10 ^ k" by (simp add: nat_power_eq)
  then show ?thesis by (simp only: decimal_digits_power10 list.size length_replicate)
qed

lemma py_int_power10_too_long:
  assumes "int_max_str_digits \<le> k"
  shows "py_int (py_str (10 ^ k)) = Inl ValueError"
proof -
  from assms have "int_max_str_digits < length (decimal_digits (nat \<bar>(10 :: int) ^ k\<bar>))"
    by (simp only: length_digits_power10 less_Suc_eq_le)
  then show ?thesis by (rule py_int_py_str_too_long)
qed

lemma power10_large: "5 \<le> k \<Longrightarrow> (24000 :: int) < 10 ^ k"
proof -
  assume "5 \<le> k"
  then have "(10 :: int) ^ 5 \<le> 10 ^ k" by (intro power_increasing) simp_all
  moreover have "(24000 :: int) < 10 ^ 5" by simp
  ultimately show ?thesis by (rule less_le_trans[rotated])
qed

section \<open>The encoder: packing the header\<close>

lemma length_le_bytes: "length (le_bytes n x) = n"
  by (induction n arbitrary: x) simp_all

lemma le_value_le_bytes: "0 \<le> x \<Longrightarrow> x < 256 ^ n \<Longrightarrow> le_value (le_bytes n x) = x"
proof (induction n arbitrary: x)
  case 0
  then show ?case by simp
next
  case (Suc n)
  have "0 \<le> x div 256" using Suc.prems(1) by simp
  moreover have "x div 256 < 256 ^ n" using Suc.prems by (simp add: div_less_iff_less_mult)
  ultimately have "le_value (le_bytes n (x div 256)) = x div 256" by (rule Suc.IH)
  moreover have "uint (word_of_int (x mod 256) :: byte) = x mod 256"
    by (simp add: uint_word_of_int)
  ultimately show ?case by simp
qed

lemma pack_header_fit: "fields_fit f \<Longrightarrow> pack_header f = Inr (header_layout f)"
  by (simp add: fields_fit_def pack_header_def header_layout_def bytes_of_def)

lemma pack_header_unfit: "\<not> fields_fit f \<Longrightarrow> pack_header f = Inl StructError"
  by (auto simp: fields_fit_def pack_header_def bytes_of_def)

lemma length_header_layout: "length (header_layout f) = 44"
  by (simp add: header_layout_def bytes_of_def length_le_bytes)

lemma encode_wav_eq:
  "encode_wav a bps sr =
     (if fields_fit (header_fields (length a) bps sr)
      then Inr (header_layout (header_fields (length a) bps sr) @ a)
      else Inl StructError)"
  by (simp add: encode_wav_def pack_header_fit pack_header_unfit)

lemma fields_fit_header_fields:
  "fields_fit (header_fields n bps sr) \<longleftrightarrow>
     0 \<le> bps \<and> bps < 2 ^ 16 \<and> 0 \<le> sr \<and> sr < 2 ^ 32
     \<and> sr * (bps div 8) < 2 ^ 32 \<and> 36 + int n < 2 ^ 32"
proof
  assume "fields_fit (header_fields n bps sr)"
  then show "0 \<le> bps \<and> bps < 2 ^ 16 \<and> 0 \<le> sr \<and> sr < 2 ^ 32
     \<and> sr * (bps div 8) < 2 ^ 32 \<and> 36 + int n < 2 ^ 32"
    by (simp add: fields_fit_def header_fields_def Let_def)
next
  assume h: "0 \<le> bps \<and> bps < 2 ^ 16 \<and> 0 \<le> sr \<and> sr < 2 ^ 32
     \<and> sr * (bps div 8) < 2 ^ 32 \<and> 36 + int n < 2 ^ 32"
  then have d: "0 \<le> bps div 8" "bps div 8 < 2 ^ 16" by linarith+
  with h have "0 \<le> sr * (bps div 8)" by simp
  with h d show "fields_fit (header_fields n bps sr)"
    by (simp add: fields_fit_def header_fields_def Let_def)
qed

lemma convert_to_wav_eq:
  "convert_to_wav a m =
     encode_wav a (py_or (last_update bits_set_by (mime_parts m) 16) 16)
                  (py_or (last_update rate_set_by (mime_parts m) 24000) 24000)"
  by (simp add: convert_to_wav_def parse_eq)

lemma header_layout_header_fields:
  "header_layout (header_fields n bps sr) =
     bytes_of ''RIFF'' @ le_bytes 4 (36 + int n) @ bytes_of ''WAVE''
     @ bytes_of ''fmt '' @ le_bytes 4 16 @ le_bytes 2 1 @ le_bytes 2 1
     @ le_bytes 4 sr @ le_bytes 4 (sr * (bps div 8))
     @ le_bytes 2 (bps div 8) @ le_bytes 2 bps
     @ bytes_of ''data'' @ le_bytes 4 (int n)"
  by (simp add: header_layout_def header_fields_def Let_def)

section \<open>The choice of payload\<close>





section \<open>Properties of the parser\<close>

text \<open>
  C3. The parser never raises: for every input, \<open>None\<close> and the empty string included, it
  returns a result; a field that no segment sets (no segment matches its pattern, or the
  integer conversion fails in each that does) holds its default, 16 or 24000. For the
  empty string, for \<open>None\<close> and for \<open>audio/Lxx;rate=oops\<close> the result is 16 and 24000.
\<close>

theorem parse_never_raises:
  "(\<exists>r. parse_audio_mime_type m = Inr r
        \<and> ((\<forall>p\<in>set (mime_parts m). bits_set_by p = None) \<longrightarrow> bits_per_sample r = 16)
        \<and> ((\<forall>p\<in>set (mime_parts m). rate_set_by p = None) \<longrightarrow> rate r = 24000))
   \<and> parse_audio_mime_type (Some '''') = Inr \<lparr>bits_per_sample = 16, rate = 24000\<rparr>
   \<and> parse_audio_mime_type None = Inr \<lparr>bits_per_sample = 16, rate = 24000\<rparr>
   \<and> parse_audio_mime_type (Some ''audio/Lxx;rate=oops'')
       = Inr \<lparr>bits_per_sample = 16, rate = 24000\<rparr>"
proof -
  have general: "\<exists>r. parse_audio_mime_type m = Inr r
        \<and> ((\<forall>p\<in>set (mime_parts m). bits_set_by p = None) \<longrightarrow> bits_per_sample r = 16)
        \<and> ((\<forall>p\<in>set (mime_parts m). rate_set_by p = None) \<longrightarrow> rate r = 24000)"
    by (simp add: parse_eq last_update_none)
  have empty: "parse_audio_mime_type (Some '''') = Inr \<lparr>bits_per_sample = 16, rate = 24000\<rparr>"
    by code_simp
  have none: "parse_audio_mime_type None = Inr \<lparr>bits_per_sample = 16, rate = 24000\<rparr>"
    by code_simp
  have garbage: "parse_audio_mime_type (Some ''audio/Lxx;rate=oops'')
       = Inr \<lparr>bits_per_sample = 16, rate = 24000\<rparr>"
    by code_simp
  from general empty none garbage show ?thesis by blast
qed

theorem parse_never_raises_witness:
  "mime_parts (Some ''audio/Lxx;rate=oops'') = [''audio/Lxx'', ''rate=oops'']
   \<and> bits_set_by ''audio/Lxx'' = None \<and> bits_set_by ''rate=oops'' = None
   \<and> rate_set_by ''audio/Lxx'' = None \<and> rate_set_by ''rate=oops'' = None
   \<and> (\<exists>r. parse_audio_mime_type (Some ''audio/Lxx;rate=oops'') = Inr r
          \<and> bits_per_sample r = 16 \<and> rate r = 24000)"
proof -
  have ps: "mime_parts (Some ''audio/Lxx;rate=oops'') = [''audio/Lxx'', ''rate=oops'']"
    by code_simp
  have n: "bits_set_by ''audio/Lxx'' = None" "bits_set_by ''rate=oops'' = None"
    "rate_set_by ''audio/Lxx'' = None" "rate_set_by ''rate=oops'' = None"
    by code_simp+
  have b: "\<forall>p\<in>set (mime_parts (Some ''audio/Lxx;rate=oops'')). bits_set_by p = None"
    unfolding ps using n by simp
  have r: "\<forall>p\<in>set (mime_parts (Some ''audio/Lxx;rate=oops'')). rate_set_by p = None"
    unfolding ps using n by simp
  from parse_never_raises [of "Some ''audio/Lxx;rate=oops''"] b r
  have "\<exists>r. parse_audio_mime_type (Some ''audio/Lxx;rate=oops'') = Inr r
          \<and> bits_per_sample r = 16 \<and> rate r = 24000"
    by blast
  with ps n show ?thesis by blast
qed

text \<open>
  C5. Matching is case-insensitive for the rate and case-sensitive for the bit depth. For
  every integer \<open>N\<close> whose decimal numeral has at most 4300 digits, a segment made of any
  casing of \<open>rate=\<close> followed by that numeral sets \<open>rate\<close> to \<open>N\<close> and nothing else; a longer
  numeral is rejected by \<open>int\<close> and changes nothing. More generally the segment sets
  \<open>rate\<close> to \<open>v\<close> when \<open>int\<close> reads the text after \<open>=\<close> as \<open>v\<close>, and changes nothing when
  \<open>int\<close> rejects it. A segment that does not start with the literal \<open>audio/L\<close>, such as
  \<open>AUDIO/L24\<close>, leaves \<open>bits_per_sample\<close> as it was. A segment that matches neither pattern
  leaves both fields as they were.
\<close>

theorem segment_matching:
  "(py_lower c = ''rate='' \<longrightarrow> length (decimal_digits (nat \<bar>N\<bar>)) \<le> 4300 \<longrightarrow>
      parse_part st (c @ py_str N) = Inr (st\<lparr>rate := N\<rparr>))
   \<and> (py_lower c = ''rate='' \<longrightarrow> 4300 < length (decimal_digits (nat \<bar>M\<bar>)) \<longrightarrow>
      parse_part st (c @ py_str M) = Inr st)
   \<and> (py_lower c = ''rate='' \<longrightarrow> py_int t = Inr v \<longrightarrow> parse_part st (c @ t) = Inr (st\<lparr>rate := v\<rparr>))
   \<and> (py_lower c = ''rate='' \<longrightarrow> py_int u = Inl e \<longrightarrow> parse_part st (c @ u) = Inr st)
   \<and> (\<not> startswith p ''audio/L'' \<longrightarrow>
        (\<exists>r. parse_part st p = Inr r \<and> bits_per_sample r = bits_per_sample st))
   \<and> parse_part st ''AUDIO/L24'' = Inr st
   \<and> (\<not> startswith (py_lower q) ''rate='' \<longrightarrow> \<not> startswith q ''audio/L'' \<longrightarrow>
        parse_part st q = Inr st)"
proof -
  have set_rate: "parse_part st (c @ t) = Inr (st\<lparr>rate := v\<rparr>)"
    if "py_lower c = ''rate=''" "py_int t = Inr v" for t v
    using rate_segment[OF that(1), of t] that(2)
    by (simp add: parse_part_eq rate_set_by_def bits_set_by_def)
  have keep_rate: "parse_part st (c @ u) = Inr st"
    if "py_lower c = ''rate=''" "py_int u = Inl e" for u e
    using rate_segment[OF that(1), of u] that(2)
    by (simp add: parse_part_eq rate_set_by_def bits_set_by_def)
  have numeral: "parse_part st (c @ py_str N) = Inr (st\<lparr>rate := N\<rparr>)"
    if "py_lower c = ''rate=''" "length (decimal_digits (nat \<bar>N\<bar>)) \<le> 4300"
  proof -
    from that(2) have "py_int (py_str N) = Inr N"
      by (intro py_int_py_str) (simp add: int_max_str_digits_def)
    with that(1) show ?thesis by (rule set_rate)
  qed
  have long: "parse_part st (c @ py_str M) = Inr st"
    if "py_lower c = ''rate=''" "4300 < length (decimal_digits (nat \<bar>M\<bar>))"
  proof -
    from that(2) have "py_int (py_str M) = Inl ValueError"
      by (intro py_int_py_str_too_long) (simp add: int_max_str_digits_def)
    with that(1) show ?thesis by (rule keep_rate)
  qed
  have keep_bits: "\<exists>r. parse_part st p = Inr r \<and> bits_per_sample r = bits_per_sample st"
    if "\<not> startswith p ''audio/L''"
    using that by (simp add: parse_part_eq bits_set_by_def)
  have "rate_set_by ''AUDIO/L24'' = None" and "bits_set_by ''AUDIO/L24'' = None"
    by code_simp+
  then have upper: "parse_part st ''AUDIO/L24'' = Inr st"
    by (simp add: parse_part_eq)
  have neither: "parse_part st q = Inr st"
    if "\<not> startswith (py_lower q) ''rate=''" "\<not> startswith q ''audio/L''"
    using that by (simp add: parse_part_eq bits_set_by_def rate_set_by_def)
  from numeral long set_rate keep_rate keep_bits upper neither show ?thesis by blast
qed

theorem segment_matching_witness:
  "py_lower ''RaTe='' = ''rate=''
   \<and> length (decimal_digits (nat \<bar>- 48000\<bar>)) \<le> 4300
   \<and> parse_part \<lparr>bits_per_sample = 16, rate = 24000\<rparr> (''RaTe='' @ py_str (- 48000))
       = Inr \<lparr>bits_per_sample = 16, rate = - 48000\<rparr>
   \<and> 4300 < length (decimal_digits (nat \<bar>10 ^ 4300\<bar>))
   \<and> parse_part \<lparr>bits_per_sample = 16, rate = 24000\<rparr> (''RaTe='' @ py_str (10 ^ 4300))
       = Inr \<lparr>bits_per_sample = 16, rate = 24000\<rparr>
   \<and> py_int ''+48_000'' = Inr 48000
   \<and> parse_part \<lparr>bits_per_sample = 16, rate = 24000\<rparr> (''RaTe='' @ ''+48_000'')
       = Inr \<lparr>bits_per_sample = 16, rate = 48000\<rparr>
   \<and> py_int ''oops'' = Inl ValueError
   \<and> parse_part \<lparr>bits_per_sample = 16, rate = 24000\<rparr> (''RaTe='' @ ''oops'')
       = Inr \<lparr>bits_per_sample = 16, rate = 24000\<rparr>
   \<and> \<not> startswith ''Audio/L24'' ''audio/L''
   \<and> (\<exists>r. parse_part \<lparr>bits_per_sample = 16, rate = 24000\<rparr> ''Audio/L24'' = Inr r
          \<and> bits_per_sample r = 16)
   \<and> \<not> startswith (py_lower ''charset=utf-8'') ''rate=''
   \<and> \<not> startswith ''charset=utf-8'' ''audio/L''
   \<and> parse_part \<lparr>bits_per_sample = 16, rate = 24000\<rparr> ''charset=utf-8''
       = Inr \<lparr>bits_per_sample = 16, rate = 24000\<rparr>"
proof -
  have h1: "py_lower ''RaTe='' = ''rate=''" by code_simp
  have h2: "py_int ''+48_000'' = Inr 48000" by code_simp
  have h3: "py_int ''oops'' = Inl ValueError" by code_simp
  have h4: "\<not> startswith ''Audio/L24'' ''audio/L''" by code_simp
  have h5: "\<not> startswith (py_lower ''charset=utf-8'') ''rate=''" by code_simp
  have h6: "\<not> startswith ''charset=utf-8'' ''audio/L''" by code_simp
  have h7: "length (decimal_digits (nat \<bar>- 48000\<bar>)) \<le> 4300"
    by (simp add: decimal_digits_small decimal_digits_large)
  have "length (decimal_digits (nat \<bar>(10 :: int) ^ 4300\<bar>)) = Suc 4300"
    by (rule length_digits_power10)
  then have h8: "4300 < length (decimal_digits (nat \<bar>10 ^ 4300\<bar>))"
    by (simp only: lessI)
  note a = segment_matching [where c = "''RaTe=''" and N = "- 48000"
      and t = "''+48_000''" and v = 48000
      and st = "\<lparr>bits_per_sample = 16, rate = 24000\<rparr>" and u = "''oops''" and e = ValueError
      and p = "''Audio/L24''" and q = "''charset=utf-8''"]
  from a h1 h7 have c1: "parse_part \<lparr>bits_per_sample = 16, rate = 24000\<rparr> (''RaTe='' @ py_str (- 48000))
       = Inr \<lparr>bits_per_sample = 16, rate = - 48000\<rparr>"
    by simp
  from a h1 h2 have c3: "parse_part \<lparr>bits_per_sample = 16, rate = 24000\<rparr> (''RaTe='' @ ''+48_000'')
       = Inr \<lparr>bits_per_sample = 16, rate = 48000\<rparr>"
    by simp
  from a h1 h3 have c4: "parse_part \<lparr>bits_per_sample = 16, rate = 24000\<rparr> (''RaTe='' @ ''oops'')
       = Inr \<lparr>bits_per_sample = 16, rate = 24000\<rparr>"
    by blast
  from a h4 have c5: "\<exists>r. parse_part \<lparr>bits_per_sample = 16, rate = 24000\<rparr> ''Audio/L24'' = Inr r
          \<and> bits_per_sample r = 16"
    by simp
  from a h5 h6 have c6: "parse_part \<lparr>bits_per_sample = 16, rate = 24000\<rparr> ''charset=utf-8''
       = Inr \<lparr>bits_per_sample = 16, rate = 24000\<rparr>"
    by blast
  note b = segment_matching [where c = "''RaTe=''" and M = "10 ^ 4300"
      and st = "\<lparr>bits_per_sample = 16, rate = 24000\<rparr>", THEN conjunct2, THEN conjunct1,
      rule_format, OF h1 h8]
  from h1 h2 h3 h4 h5 h6 h7 h8 c1 b c3 c4 c5 c6 show ?thesis by blast
qed

text \<open>
  Not every integer: \<open>10^4300\<close> is written with 4301 digits, \<open>int\<close> raises on it, and the
  segment \<open>RATE=1000...0\<close> leaves the rate at its default.
\<close>

theorem long_numeral_counterexample:
  "py_lower ''RATE='' = ''rate=''
   \<and> py_str (10 ^ 4300) = CHR ''1'' # replicate 4300 CHR ''0''
   \<and> py_int (py_str (10 ^ 4300)) = Inl ValueError
   \<and> parse_part \<lparr>bits_per_sample = 16, rate = 24000\<rparr> (''RATE='' @ py_str (10 ^ 4300))
       = Inr \<lparr>bits_per_sample = 16, rate = 24000\<rparr>
   \<and> (24000 :: int) < 10 ^ 4300"
proof -
  have h: "py_lower ''RATE='' = ''rate=''" by code_simp
  have s: "py_str (10 ^ 4300) = CHR ''1'' # replicate 4300 CHR ''0''"
    by (rule py_str_power10)
  have "int_max_str_digits \<le> 4300" by (simp add: int_max_str_digits_def)
  then have i: "py_int (py_str (10 ^ 4300)) = Inl ValueError"
    by (rule py_int_power10_too_long)
  note r = rate_segment[OF h, of "py_str (10 ^ 4300)"]
  have "rate_set_by (''RATE='' @ py_str (10 ^ 4300)) = None"
    unfolding rate_set_by_def by (simp only: r i if_True sum.case)
  moreover have "bits_set_by (''RATE='' @ py_str (10 ^ 4300)) = None"
    unfolding bits_set_by_def by (simp only: r if_False)
  ultimately have p: "parse_part \<lparr>bits_per_sample = 16, rate = 24000\<rparr> (''RATE='' @ py_str (10 ^ 4300))
       = Inr \<lparr>bits_per_sample = 16, rate = 24000\<rparr>"
    by (simp only: parse_part_eq option.case params.select_convs)
  have "(5 :: nat) \<le> 4300" by simp
  then have b: "(24000 :: int) < 10 ^ 4300" by (rule power10_large)
  from h s i p b show ?thesis by blast
qed

text \<open>
  C10. The last segment that sets a parameter decides it: when a segment sets the rate
  (the bit depth) to \<open>v\<close> and no later segment sets it, either because it does not match or
  because its integer does not parse, the result holds \<open>v\<close>. So \<open>rate=8000;rate=16000\<close>
  gives 16000 and \<open>rate=8000;rate=junk\<close> gives 8000.
\<close>

theorem last_segment_wins:
  "(mime_parts m = ps @ p # qs \<longrightarrow> rate_set_by p = Some v
      \<longrightarrow> (\<forall>q\<in>set qs. rate_set_by q = None)
      \<longrightarrow> (\<exists>r. parse_audio_mime_type m = Inr r \<and> rate r = v))
   \<and> (mime_parts m = ps @ p # qs \<longrightarrow> bits_set_by p = Some v
      \<longrightarrow> (\<forall>q\<in>set qs. bits_set_by q = None)
      \<longrightarrow> (\<exists>r. parse_audio_mime_type m = Inr r \<and> bits_per_sample r = v))
   \<and> parse_audio_mime_type (Some ''rate=8000;rate=16000'')
       = Inr \<lparr>bits_per_sample = 16, rate = 16000\<rparr>
   \<and> parse_audio_mime_type (Some ''rate=8000;rate=junk'')
       = Inr \<lparr>bits_per_sample = 16, rate = 8000\<rparr>"
proof -
  have r: "\<exists>r. parse_audio_mime_type m = Inr r \<and> rate r = v"
    if "mime_parts m = ps @ p # qs" "rate_set_by p = Some v" "\<forall>q\<in>set qs. rate_set_by q = None"
    using that by (simp add: parse_eq last_update_last)
  have b: "\<exists>r. parse_audio_mime_type m = Inr r \<and> bits_per_sample r = v"
    if "mime_parts m = ps @ p # qs" "bits_set_by p = Some v" "\<forall>q\<in>set qs. bits_set_by q = None"
    using that by (simp add: parse_eq last_update_last)
  have e1: "parse_audio_mime_type (Some ''rate=8000;rate=16000'')
       = Inr \<lparr>bits_per_sample = 16, rate = 16000\<rparr>"
    by code_simp
  have e2: "parse_audio_mime_type (Some ''rate=8000;rate=junk'')
       = Inr \<lparr>bits_per_sample = 16, rate = 8000\<rparr>"
    by code_simp
  from r b e1 e2 show ?thesis by blast
qed

theorem last_segment_wins_witness:
  "mime_parts (Some ''audio/L8;rate=8000;audio/L24;rate=junk'')
     = [''audio/L8'', ''rate=8000''] @ ''audio/L24'' # [''rate=junk'']
   \<and> bits_set_by ''audio/L24'' = Some 24
   \<and> bits_set_by ''rate=junk'' = None
   \<and> mime_parts (Some ''audio/L8;rate=8000;audio/L24;rate=junk'')
     = [''audio/L8''] @ ''rate=8000'' # [''audio/L24'', ''rate=junk'']
   \<and> rate_set_by ''rate=8000'' = Some 8000
   \<and> rate_set_by ''audio/L24'' = None
   \<and> rate_set_by ''rate=junk'' = None
   \<and> (\<exists>r. parse_audio_mime_type (Some ''audio/L8;rate=8000;audio/L24;rate=junk'') = Inr r
          \<and> rate r = 8000)
   \<and> (\<exists>r. parse_audio_mime_type (Some ''audio/L8;rate=8000;audio/L24;rate=junk'') = Inr r
          \<and> bits_per_sample r = 24)"
proof -
  have h1: "mime_parts (Some ''audio/L8;rate=8000;audio/L24;rate=junk'')
     = [''audio/L8'', ''rate=8000''] @ ''audio/L24'' # [''rate=junk'']" by code_simp
  have h2: "bits_set_by ''audio/L24'' = Some 24" by code_simp
  have h3: "bits_set_by ''rate=junk'' = None" by code_simp
  have h4: "mime_parts (Some ''audio/L8;rate=8000;audio/L24;rate=junk'')
     = [''audio/L8''] @ ''rate=8000'' # [''audio/L24'', ''rate=junk'']" by code_simp
  have h5: "rate_set_by ''rate=8000'' = Some 8000" by code_simp
  have h6: "rate_set_by ''audio/L24'' = None" "rate_set_by ''rate=junk'' = None" by code_simp+
  have b3: "\<forall>q\<in>set [''rate=junk'']. bits_set_by q = None" using h3 by simp
  have b6: "\<forall>q\<in>set [''audio/L24'', ''rate=junk'']. rate_set_by q = None" using h6 by simp
  have r: "\<exists>r. parse_audio_mime_type (Some ''audio/L8;rate=8000;audio/L24;rate=junk'') = Inr r
          \<and> rate r = 8000"
    using last_segment_wins [of "Some ''audio/L8;rate=8000;audio/L24;rate=junk''"
        "[''audio/L8'']" "''rate=8000''" "[''audio/L24'', ''rate=junk'']" 8000] h4 h5 b6
    by blast
  have b: "\<exists>r. parse_audio_mime_type (Some ''audio/L8;rate=8000;audio/L24;rate=junk'') = Inr r
          \<and> bits_per_sample r = 24"
    using last_segment_wins [of "Some ''audio/L8;rate=8000;audio/L24;rate=junk''"
        "[''audio/L8'', ''rate=8000'']" "''audio/L24''" "[''rate=junk'']" 24] h1 h2 b3
    by blast
  from h1 h2 h3 h4 h5 h6 r b show ?thesis by blast
qed

text \<open>
  C4. \<open>audio/L24;rate=48000\<close> and \<open>rate=48000;audio/L24\<close> both give 24 bits and 48000 Hz.
  Reordering the \<open>;\<close>-separated parts of a MIME string leaves the result unchanged when
  the segments that set the rate all set it to the same value, and likewise for the bit
  depth (in particular when at most one segment sets each).
\<close>

theorem reorder_when_segments_agree:
  "(mset (py_split CHR '';'' s) = mset (py_split CHR '';'' t)
      \<longrightarrow> (\<forall>p\<in>set (mime_parts (Some s)). \<forall>q\<in>set (mime_parts (Some s)).
             rate_set_by p \<noteq> None \<longrightarrow> rate_set_by q \<noteq> None \<longrightarrow> rate_set_by p = rate_set_by q)
      \<longrightarrow> (\<forall>p\<in>set (mime_parts (Some s)). \<forall>q\<in>set (mime_parts (Some s)).
             bits_set_by p \<noteq> None \<longrightarrow> bits_set_by q \<noteq> None \<longrightarrow> bits_set_by p = bits_set_by q)
      \<longrightarrow> parse_audio_mime_type (Some s) = parse_audio_mime_type (Some t))
   \<and> parse_audio_mime_type (Some ''audio/L24;rate=48000'')
       = Inr \<lparr>bits_per_sample = 24, rate = 48000\<rparr>
   \<and> parse_audio_mime_type (Some ''rate=48000;audio/L24'')
       = Inr \<lparr>bits_per_sample = 24, rate = 48000\<rparr>"
proof -
  have general: "parse_audio_mime_type (Some s) = parse_audio_mime_type (Some t)"
    if m: "mset (py_split CHR '';'' s) = mset (py_split CHR '';'' t)"
      and r: "\<forall>p\<in>set (mime_parts (Some s)). \<forall>q\<in>set (mime_parts (Some s)).
             rate_set_by p \<noteq> None \<longrightarrow> rate_set_by q \<noteq> None \<longrightarrow> rate_set_by p = rate_set_by q"
      and b: "\<forall>p\<in>set (mime_parts (Some s)). \<forall>q\<in>set (mime_parts (Some s)).
             bits_set_by p \<noteq> None \<longrightarrow> bits_set_by q \<noteq> None \<longrightarrow> bits_set_by p = bits_set_by q"
  proof -
    have same: "set (mime_parts (Some s)) = set (mime_parts (Some t))"
      using m by (rule set_mime_parts_reordered)
    have "last_update rate_set_by (mime_parts (Some s)) 24000
          = last_update rate_set_by (mime_parts (Some t)) 24000"
      using same r by (rule last_update_agree)
    moreover have "last_update bits_set_by (mime_parts (Some s)) 16
          = last_update bits_set_by (mime_parts (Some t)) 16"
      using same b by (rule last_update_agree)
    ultimately show ?thesis by (simp add: parse_eq)
  qed
  have e1: "parse_audio_mime_type (Some ''audio/L24;rate=48000'')
       = Inr \<lparr>bits_per_sample = 24, rate = 48000\<rparr>"
    by code_simp
  have e2: "parse_audio_mime_type (Some ''rate=48000;audio/L24'')
       = Inr \<lparr>bits_per_sample = 24, rate = 48000\<rparr>"
    by code_simp
  from general e1 e2 show ?thesis by blast
qed

theorem reorder_when_segments_agree_witness:
  "mset (py_split CHR '';'' ''audio/L24;rate=48000'')
     = mset (py_split CHR '';'' ''rate=48000;audio/L24'')
   \<and> mime_parts (Some ''audio/L24;rate=48000'') = [''audio/L24'', ''rate=48000'']
   \<and> rate_set_by ''audio/L24'' = None \<and> rate_set_by ''rate=48000'' = Some 48000
   \<and> bits_set_by ''audio/L24'' = Some 24 \<and> bits_set_by ''rate=48000'' = None
   \<and> parse_audio_mime_type (Some ''audio/L24;rate=48000'')
       = parse_audio_mime_type (Some ''rate=48000;audio/L24'')"
proof -
  have s: "py_split CHR '';'' ''audio/L24;rate=48000'' = [''audio/L24'', ''rate=48000'']"
    by code_simp
  have t: "py_split CHR '';'' ''rate=48000;audio/L24'' = [''rate=48000'', ''audio/L24'']"
    by code_simp
  have m: "mset (py_split CHR '';'' ''audio/L24;rate=48000'')
     = mset (py_split CHR '';'' ''rate=48000;audio/L24'')"
    unfolding s t by (simp add: add_mset_commute)
  have ps: "mime_parts (Some ''audio/L24;rate=48000'') = [''audio/L24'', ''rate=48000'']"
    by code_simp
  have v: "rate_set_by ''audio/L24'' = None" "rate_set_by ''rate=48000'' = Some 48000"
    "bits_set_by ''audio/L24'' = Some 24" "bits_set_by ''rate=48000'' = None"
    by code_simp+
  have r: "\<forall>p\<in>set (mime_parts (Some ''audio/L24;rate=48000'')).
        \<forall>q\<in>set (mime_parts (Some ''audio/L24;rate=48000'')).
          rate_set_by p \<noteq> None \<longrightarrow> rate_set_by q \<noteq> None \<longrightarrow> rate_set_by p = rate_set_by q"
    unfolding ps using v by simp
  have b: "\<forall>p\<in>set (mime_parts (Some ''audio/L24;rate=48000'')).
        \<forall>q\<in>set (mime_parts (Some ''audio/L24;rate=48000'')).
          bits_set_by p \<noteq> None \<longrightarrow> bits_set_by q \<noteq> None \<longrightarrow> bits_set_by p = bits_set_by q"
    unfolding ps using v by simp
  from reorder_when_segments_agree [of "''audio/L24;rate=48000''" "''rate=48000;audio/L24''"] m r b
  have "parse_audio_mime_type (Some ''audio/L24;rate=48000'')
       = parse_audio_mime_type (Some ''rate=48000;audio/L24'')"
    by blast
  with m ps v show ?thesis by blast
qed

text \<open>
  Without that condition the order matters, since the last segment that sets a parameter
  decides it: \<open>rate=8000;rate=16000\<close> and \<open>rate=16000;rate=8000\<close> have the same parts
  and different results.
\<close>

theorem reorder_counterexample:
  "mset (py_split CHR '';'' ''rate=8000;rate=16000'')
     = mset (py_split CHR '';'' ''rate=16000;rate=8000'')
   \<and> parse_audio_mime_type (Some ''rate=8000;rate=16000'')
       = Inr \<lparr>bits_per_sample = 16, rate = 16000\<rparr>
   \<and> parse_audio_mime_type (Some ''rate=16000;rate=8000'')
       = Inr \<lparr>bits_per_sample = 16, rate = 8000\<rparr>
   \<and> parse_audio_mime_type (Some ''rate=8000;rate=16000'')
       \<noteq> parse_audio_mime_type (Some ''rate=16000;rate=8000'')"
proof -
  have s: "py_split CHR '';'' ''rate=8000;rate=16000'' = [''rate=8000'', ''rate=16000'']"
    by code_simp
  have t: "py_split CHR '';'' ''rate=16000;rate=8000'' = [''rate=16000'', ''rate=8000'']"
    by code_simp
  have m: "mset (py_split CHR '';'' ''rate=8000;rate=16000'')
     = mset (py_split CHR '';'' ''rate=16000;rate=8000'')"
    unfolding s t by (simp add: add_mset_commute)
  have a: "parse_audio_mime_type (Some ''rate=8000;rate=16000'')
       = Inr \<lparr>bits_per_sample = 16, rate = 16000\<rparr>"
    by code_simp
  have b: "parse_audio_mime_type (Some ''rate=16000;rate=8000'')
       = Inr \<lparr>bits_per_sample = 16, rate = 8000\<rparr>"
    by code_simp
  from m a b show ?thesis by simp
qed

section \<open>Properties of the encoder\<close>

text \<open>
  C1. For every payload, every \<open>bits_per_sample\<close> that is a positive multiple of 8 and
  every positive sample rate such that the header fields fit their widths
  (\<open>bits_per_sample < 2^16\<close>, \<open>sample_rate * (bits_per_sample / 8) < 2^32\<close> and
  \<open>36 + len(payload) < 2^32\<close>), the encoder returns exactly the 44-byte header followed by
  the payload: \<open>RIFF\<close>, the 4-byte little-endian \<open>36 + len(payload)\<close>, \<open>WAVE\<close>, \<open>fmt \<close>,
  the little-endian constants 16 (4 bytes) and 1 (2 bytes), the 2-byte channel count 1, the
  4-byte sample rate, the 4-byte byte rate \<open>sample_rate * block_align\<close>, the 2-byte block
  align \<open>bits_per_sample / 8\<close>, the 2-byte \<open>bits_per_sample\<close>, \<open>data\<close> and the 4-byte payload
  length. Each of these byte fields denotes its value, the output is \<open>44 + len(payload)\<close>
  bytes long, and \<open>convert_to_wav\<close> gives this output for a MIME type that parses to these
  parameters. An empty payload at 16 bits and 24000 Hz gives the 44-byte header with chunk
  size 36, byte rate 48000 and block align 2.
\<close>

theorem wav_header_exact:
  "(0 < bps \<longrightarrow> bps mod 8 = 0 \<longrightarrow> 0 < sr
      \<longrightarrow> bps < 2 ^ 16 \<longrightarrow> sr * (bps div 8) < 2 ^ 32 \<longrightarrow> 36 + int (length payload) < 2 ^ 32
      \<longrightarrow> encode_wav payload bps sr
            = Inr (bytes_of ''RIFF'' @ le_bytes 4 (36 + int (length payload)) @ bytes_of ''WAVE''
                   @ bytes_of ''fmt '' @ le_bytes 4 16 @ le_bytes 2 1 @ le_bytes 2 1
                   @ le_bytes 4 sr @ le_bytes 4 (sr * (bps div 8))
                   @ le_bytes 2 (bps div 8) @ le_bytes 2 bps
                   @ bytes_of ''data'' @ le_bytes 4 (int (length payload)) @ payload)
          \<and> (\<exists>out. encode_wav payload bps sr = Inr out \<and> length out = 44 + length payload)
          \<and> le_value (le_bytes 4 (36 + int (length payload))) = 36 + int (length payload)
          \<and> le_value (le_bytes 4 sr) = sr
          \<and> le_value (le_bytes 4 (sr * (bps div 8))) = sr * (bps div 8)
          \<and> le_value (le_bytes 2 (bps div 8)) = bps div 8
          \<and> 8 * (bps div 8) = bps
          \<and> le_value (le_bytes 2 bps) = bps
          \<and> le_value (le_bytes 4 (int (length payload))) = int (length payload)
          \<and> (parse_audio_mime_type m = Inr \<lparr>bits_per_sample = bps, rate = sr\<rparr>
               \<longrightarrow> convert_to_wav payload m = encode_wav payload bps sr))
   \<and> header_fields 0 16 24000
       = \<lparr>f_chunk_size = 36, f_num_channels = 1, f_sample_rate = 24000, f_byte_rate = 48000,
          f_block_align = 2, f_bits_per_sample = 16, f_data_size = 0\<rparr>
   \<and> encode_wav [] 16 24000
       = Inr [82, 73, 70, 70, 36, 0, 0, 0, 87, 65, 86, 69, 102, 109, 116, 32, 16, 0, 0, 0,
              1, 0, 1, 0, 192, 93, 0, 0, 128, 187, 0, 0, 2, 0, 16, 0, 100, 97, 116, 97,
              0, 0, 0, 0]
   \<and> convert_to_wav [] (Some ''audio/L16;rate=24000'') = encode_wav [] 16 24000"
proof -
  have general: "encode_wav payload bps sr
            = Inr (bytes_of ''RIFF'' @ le_bytes 4 (36 + int (length payload)) @ bytes_of ''WAVE''
                   @ bytes_of ''fmt '' @ le_bytes 4 16 @ le_bytes 2 1 @ le_bytes 2 1
                   @ le_bytes 4 sr @ le_bytes 4 (sr * (bps div 8))
                   @ le_bytes 2 (bps div 8) @ le_bytes 2 bps
                   @ bytes_of ''data'' @ le_bytes 4 (int (length payload)) @ payload)
          \<and> (\<exists>out. encode_wav payload bps sr = Inr out \<and> length out = 44 + length payload)
          \<and> le_value (le_bytes 4 (36 + int (length payload))) = 36 + int (length payload)
          \<and> le_value (le_bytes 4 sr) = sr
          \<and> le_value (le_bytes 4 (sr * (bps div 8))) = sr * (bps div 8)
          \<and> le_value (le_bytes 2 (bps div 8)) = bps div 8
          \<and> 8 * (bps div 8) = bps
          \<and> le_value (le_bytes 2 bps) = bps
          \<and> le_value (le_bytes 4 (int (length payload))) = int (length payload)
          \<and> (parse_audio_mime_type m = Inr \<lparr>bits_per_sample = bps, rate = sr\<rparr>
               \<longrightarrow> convert_to_wav payload m = encode_wav payload bps sr)"
    if h: "0 < bps" "bps mod 8 = 0" "0 < sr" "bps < 2 ^ 16" "sr * (bps div 8) < 2 ^ 32"
      "36 + int (length payload) < 2 ^ 32"
  proof -
    from h(1,2) have d: "1 \<le> bps div 8" "8 * (bps div 8) = bps" by presburger+
    from d(1) h(3) have "sr * 1 \<le> sr * (bps div 8)" by (intro mult_left_mono) simp_all
    with h(5) have sr: "sr < 2 ^ 32" by simp
    from d(1) h(3) have br: "0 \<le> sr * (bps div 8)" by simp
    from h(4) d(1) have ba: "0 \<le> bps div 8" "bps div 8 < 2 ^ 16" by linarith+
    have fit: "fields_fit (header_fields (length payload) bps sr)"
      using h sr by (simp add: fields_fit_header_fields)
    have enc: "encode_wav payload bps sr
        = Inr (header_layout (header_fields (length payload) bps sr) @ payload)"
      using fit by (simp add: encode_wav_eq)
    have len: "\<exists>out. encode_wav payload bps sr = Inr out \<and> length out = 44 + length payload"
      using enc by (simp add: length_header_layout)
    have v1: "le_value (le_bytes 4 (36 + int (length payload))) = 36 + int (length payload)"
      using h(6) by (intro le_value_le_bytes) simp_all
    have v2: "le_value (le_bytes 4 sr) = sr"
      using h(3) sr by (intro le_value_le_bytes) simp_all
    have v3: "le_value (le_bytes 4 (sr * (bps div 8))) = sr * (bps div 8)"
      using br h(5) by (intro le_value_le_bytes) simp_all
    have v4: "le_value (le_bytes 2 (bps div 8)) = bps div 8"
      using ba by (intro le_value_le_bytes) simp_all
    have v5: "le_value (le_bytes 2 bps) = bps"
      using h(1,4) by (intro le_value_le_bytes) simp_all
    have v6: "le_value (le_bytes 4 (int (length payload))) = int (length payload)"
      using h(6) by (intro le_value_le_bytes) simp_all
    have conv: "convert_to_wav payload m = encode_wav payload bps sr"
      if "parse_audio_mime_type m = Inr \<lparr>bits_per_sample = bps, rate = sr\<rparr>"
      using that h(1,3) by (simp add: convert_to_wav_def py_or_def)
    from enc len v1 v2 v3 v4 d(2) v5 v6 conv show ?thesis
      by (simp add: header_layout_header_fields)
  qed
  have f0: "header_fields 0 16 24000
       = \<lparr>f_chunk_size = 36, f_num_channels = 1, f_sample_rate = 24000, f_byte_rate = 48000,
          f_block_align = 2, f_bits_per_sample = 16, f_data_size = 0\<rparr>"
    by (simp add: header_fields_def)
  have e0: "encode_wav [] 16 24000
       = Inr [82, 73, 70, 70, 36, 0, 0, 0, 87, 65, 86, 69, 102, 109, 116, 32, 16, 0, 0, 0,
              1, 0, 1, 0, 192, 93, 0, 0, 128, 187, 0, 0, 2, 0, 16, 0, 100, 97, 116, 97,
              0, 0, 0, 0]"
    by code_simp
  have c0: "convert_to_wav [] (Some ''audio/L16;rate=24000'') = encode_wav [] 16 24000"
    by code_simp
  from general f0 e0 c0 show ?thesis by blast
qed

theorem wav_header_exact_witness:
  "(0 :: int) < 24 \<and> (24 :: int) mod 8 = 0 \<and> (0 :: int) < 48000 \<and> (24 :: int) < 2 ^ 16
   \<and> (48000 :: int) * (24 div 8) < 2 ^ 32 \<and> 36 + int (length [1, 2, 3 :: byte]) < 2 ^ 32
   \<and> parse_audio_mime_type (Some ''audio/L24;rate=48000'')
       = Inr \<lparr>bits_per_sample = 24, rate = 48000\<rparr>
   \<and> (\<exists>out. encode_wav [1, 2, 3] 24 48000 = Inr out \<and> length out = 44 + length [1, 2, 3 :: byte])
   \<and> le_value (le_bytes 4 (48000 * (24 div 8))) = 48000 * (24 div 8)
   \<and> convert_to_wav [1, 2, 3] (Some ''audio/L24;rate=48000'') = encode_wav [1, 2, 3] 24 48000"
proof -
  have p: "parse_audio_mime_type (Some ''audio/L24;rate=48000'')
       = Inr \<lparr>bits_per_sample = 24, rate = 48000\<rparr>"
    by code_simp
  have h: "(0 :: int) < 24" "(24 :: int) mod 8 = 0" "(0 :: int) < 48000" "(24 :: int) < 2 ^ 16"
    "(48000 :: int) * (24 div 8) < 2 ^ 32" "36 + int (length [1, 2, 3 :: byte]) < 2 ^ 32"
    by simp_all
  note t = wav_header_exact [where bps = 24 and sr = 48000 and payload = "[1, 2, 3]"
      and m = "Some ''audio/L24;rate=48000''", THEN conjunct1, rule_format, OF h]
  from t p have "(\<exists>out. encode_wav [1, 2, 3] 24 48000 = Inr out \<and> length out = 44 + length [1, 2, 3 :: byte])
   \<and> le_value (le_bytes 4 (48000 * (24 div 8))) = 48000 * (24 div 8)
   \<and> convert_to_wav [1, 2, 3] (Some ''audio/L24;rate=48000'') = encode_wav [1, 2, 3] 24 48000"
    by blast
  with h p show ?thesis by blast
qed

text \<open>
  Positive parameters alone are not enough: a sample rate of \<open>2^32\<close> at 8 bits does not fit
  the 4-byte field, and \<open>struct.pack\<close> raises.
\<close>

theorem wav_header_counterexample:
  "(0 :: int) < 8 \<and> (8 :: int) mod 8 = 0 \<and> (0 :: int) < 4294967296
   \<and> parse_audio_mime_type (Some ''audio/L8;rate=4294967296'')
       = Inr \<lparr>bits_per_sample = 8, rate = 4294967296\<rparr>
   \<and> convert_to_wav [1, 2] (Some ''audio/L8;rate=4294967296'') = Inl StructError
   \<and> encode_wav [1, 2] 8 4294967296 = Inl StructError"
proof -
  have p: "parse_audio_mime_type (Some ''audio/L8;rate=4294967296'')
       = Inr \<lparr>bits_per_sample = 8, rate = 4294967296\<rparr>"
    by code_simp
  have e: "encode_wav [1, 2] 8 4294967296 = Inl StructError"
    by (simp add: encode_wav_eq fields_fit_header_fields)
  have c: "convert_to_wav [1, 2] (Some ''audio/L8;rate=4294967296'') = Inl StructError"
    using p e by (simp add: convert_to_wav_def py_or_def)
  from p e c show ?thesis by simp
qed

text \<open>
  C2. Whatever the payload holds, the bytes of the encoder's output from offset 44 onward
  are the payload, the 44 bytes before them are the header (which depends on the payload's
  length only, not on its content), and the output is \<open>44 + len(payload)\<close> bytes long; this
  holds for \<open>encode_wav\<close> and for \<open>convert_to_wav\<close>. For parameters whose header fields fit
  their widths there is such an output.
\<close>

theorem payload_preserved:
  "(encode_wav payload bps sr = Inr out \<longrightarrow>
      drop 44 out = payload
      \<and> take 44 out = header_layout (header_fields (length payload) bps sr)
      \<and> length out = 44 + length payload)
   \<and> (convert_to_wav payload m = Inr out' \<longrightarrow>
      drop 44 out' = payload \<and> length out' = 44 + length payload)
   \<and> (0 \<le> bps \<longrightarrow> bps < 2 ^ 16 \<longrightarrow> 0 \<le> sr \<longrightarrow> sr < 2 ^ 32 \<longrightarrow> sr * (bps div 8) < 2 ^ 32
      \<longrightarrow> 36 + int (length payload) < 2 ^ 32
      \<longrightarrow> (\<exists>res. encode_wav payload bps sr = Inr res \<and> drop 44 res = payload))
   \<and> (36 + int n < 2 ^ 32 \<longrightarrow>
      encode_wav (replicate n 0) 16 24000
        = Inr (header_layout (header_fields n 16 24000) @ replicate n 0)
      \<and> encode_wav (replicate n 255) 16 24000
        = Inr (header_layout (header_fields n 16 24000) @ replicate n 255))"
proof -
  have enc: "drop 44 out = payload
      \<and> take 44 out = header_layout (header_fields (length payload) bps sr)
      \<and> length out = 44 + length payload"
    if "encode_wav payload bps sr = Inr out" for payload bps sr out
  proof -
    from that have "out = header_layout (header_fields (length payload) bps sr) @ payload"
      by (simp add: encode_wav_eq split: if_splits)
    then show ?thesis by (simp add: length_header_layout)
  qed
  have conv: "drop 44 out' = payload \<and> length out' = 44 + length payload"
    if "convert_to_wav payload m = Inr out'"
    using that enc by (simp add: convert_to_wav_eq)
  have ret: "\<exists>res. encode_wav payload bps sr = Inr res \<and> drop 44 res = payload"
    if "0 \<le> bps" "bps < 2 ^ 16" "0 \<le> sr" "sr < 2 ^ 32" "sr * (bps div 8) < 2 ^ 32"
      "36 + int (length payload) < 2 ^ 32"
    using that by (simp add: encode_wav_eq fields_fit_header_fields length_header_layout)
  have fill: "encode_wav (replicate n b) 16 24000
        = Inr (header_layout (header_fields n 16 24000) @ replicate n b)"
    if "36 + int n < 2 ^ 32" for b
    using that by (simp add: encode_wav_eq fields_fit_header_fields)
  from enc conv ret fill show ?thesis by blast
qed

theorem payload_preserved_witness:
  "encode_wav [0, 0, 0] 16 24000
     = Inr [82, 73, 70, 70, 39, 0, 0, 0, 87, 65, 86, 69, 102, 109, 116, 32, 16, 0, 0, 0,
            1, 0, 1, 0, 192, 93, 0, 0, 128, 187, 0, 0, 2, 0, 16, 0, 100, 97, 116, 97,
            3, 0, 0, 0, 0, 0, 0]
   \<and> convert_to_wav [255, 255] (Some ''audio/L8;rate=8000'')
     = Inr [82, 73, 70, 70, 38, 0, 0, 0, 87, 65, 86, 69, 102, 109, 116, 32, 16, 0, 0, 0,
            1, 0, 1, 0, 64, 31, 0, 0, 64, 31, 0, 0, 1, 0, 8, 0, 100, 97, 116, 97,
            2, 0, 0, 0, 255, 255]
   \<and> drop 44 [82, 73, 70, 70, 39, 0, 0, 0, 87, 65, 86, 69, 102, 109, 116, 32, 16, 0, 0, 0,
            1, 0, 1, 0, 192, 93, 0, 0, 128, 187, 0, 0, 2, 0, 16, 0, 100, 97, 116, 97,
            3, 0, 0, 0, 0, 0, 0] = [0, 0, 0 :: byte]
   \<and> drop 44 [82, 73, 70, 70, 38, 0, 0, 0, 87, 65, 86, 69, 102, 109, 116, 32, 16, 0, 0, 0,
            1, 0, 1, 0, 64, 31, 0, 0, 64, 31, 0, 0, 1, 0, 8, 0, 100, 97, 116, 97,
            2, 0, 0, 0, 255, 255] = [255, 255 :: byte]
   \<and> (0 :: int) \<le> 16 \<and> (16 :: int) < 2 ^ 16 \<and> (0 :: int) \<le> 24000 \<and> (24000 :: int) < 2 ^ 32
   \<and> (24000 :: int) * (16 div 8) < 2 ^ 32 \<and> 36 + int (length [0, 0, 0 :: byte]) < 2 ^ 32
   \<and> (\<exists>res. encode_wav [0, 0, 0] 16 24000 = Inr res \<and> drop 44 res = [0, 0, 0])
   \<and> 36 + int 3 < 2 ^ 32
   \<and> encode_wav (replicate 3 255) 16 24000
       = Inr (header_layout (header_fields 3 16 24000) @ replicate 3 255)"
proof -
  have n: "36 + int 3 < 2 ^ 32" by simp
  from payload_preserved [where n = 3] n
  have f: "encode_wav (replicate 3 255) 16 24000
       = Inr (header_layout (header_fields 3 16 24000) @ replicate 3 255)"
    by blast
  have e: "encode_wav [0, 0, 0] 16 24000
     = Inr [82, 73, 70, 70, 39, 0, 0, 0, 87, 65, 86, 69, 102, 109, 116, 32, 16, 0, 0, 0,
            1, 0, 1, 0, 192, 93, 0, 0, 128, 187, 0, 0, 2, 0, 16, 0, 100, 97, 116, 97,
            3, 0, 0, 0, 0, 0, 0]"
    by code_simp
  have c: "convert_to_wav [255, 255] (Some ''audio/L8;rate=8000'')
     = Inr [82, 73, 70, 70, 38, 0, 0, 0, 87, 65, 86, 69, 102, 109, 116, 32, 16, 0, 0, 0,
            1, 0, 1, 0, 64, 31, 0, 0, 64, 31, 0, 0, 1, 0, 8, 0, 100, 97, 116, 97,
            2, 0, 0, 0, 255, 255]"
    by code_simp
  from payload_preserved [where payload = "[0, 0, 0]" and bps = 16 and sr = 24000
      and out = "[82, 73, 70, 70, 39, 0, 0, 0, 87, 65, 86, 69, 102, 109, 116, 32, 16, 0, 0, 0,
            1, 0, 1, 0, 192, 93, 0, 0, 128, 187, 0, 0, 2, 0, 16, 0, 100, 97, 116, 97,
            3, 0, 0, 0, 0, 0, 0]"] e
  have a: "drop 44 [82, 73, 70, 70, 39, 0, 0, 0, 87, 65, 86, 69, 102, 109, 116, 32, 16, 0, 0, 0,
            1, 0, 1, 0, 192, 93, 0, 0, 128, 187, 0, 0, 2, 0, 16, 0, 100, 97, 116, 97,
            3, 0, 0, 0, 0, 0, 0] = [0, 0, 0 :: byte]
      \<and> (\<exists>res. encode_wav [0, 0, 0] 16 24000 = Inr res \<and> drop 44 res = [0, 0, 0])"
    by simp
  from payload_preserved [where payload = "[255, 255]" and m = "Some ''audio/L8;rate=8000''"
      and out' = "[82, 73, 70, 70, 38, 0, 0, 0, 87, 65, 86, 69, 102, 109, 116, 32, 16, 0, 0, 0,
            1, 0, 1, 0, 64, 31, 0, 0, 64, 31, 0, 0, 1, 0, 8, 0, 100, 97, 116, 97,
            2, 0, 0, 0, 255, 255]"] c
  have b: "drop 44 [82, 73, 70, 70, 38, 0, 0, 0, 87, 65, 86, 69, 102, 109, 116, 32, 16, 0, 0, 0,
            1, 0, 1, 0, 64, 31, 0, 0, 64, 31, 0, 0, 1, 0, 8, 0, 100, 97, 116, 97,
            2, 0, 0, 0, 255, 255] = [255, 255 :: byte]"
    by simp
  from e c a b n f show ?thesis by simp
qed




text \<open>
  C9. The parser does no range check: a segment whose parameter text parses as an integer
  sets the field to that integer, zero and negative values included, and
  \<open>audio/L0;rate=-100\<close> parses to 0 bits and -100 Hz. The encoder replaces a zero by the
  default (16 bits, 24000 Hz) and computes \<open>block_align\<close> and \<open>byte_rate\<close> from the values
  without checking them; packing a negative value raises \<open>struct.error\<close>.
\<close>

theorem no_range_validation:
  "(startswith (py_lower p) ''rate='' \<longrightarrow> int_after CHR ''='' p = Inr v \<longrightarrow>
      (\<exists>r. parse_part st p = Inr r \<and> rate r = v))
   \<and> (startswith q ''audio/L'' \<longrightarrow> int_after CHR ''L'' q = Inr w \<longrightarrow>
      (\<exists>r. parse_part st q = Inr r \<and> bits_per_sample r = w))
   \<and> parse_audio_mime_type (Some ''audio/L0;rate=-100'')
       = Inr \<lparr>bits_per_sample = 0, rate = - 100\<rparr>
   \<and> (parse_audio_mime_type m = Inr ps \<longrightarrow>
        convert_to_wav a m
          = encode_wav a (if bits_per_sample ps = 0 then 16 else bits_per_sample ps)
                         (if rate ps = 0 then 24000 else rate ps))
   \<and> f_block_align (header_fields n bps sr) = bps div 8
   \<and> f_byte_rate (header_fields n bps sr) = sr * (bps div 8)
   \<and> (bps < 0 \<or> sr < 0 \<longrightarrow> encode_wav a bps sr = Inl StructError)"
proof -
  have r: "\<exists>r. parse_part st p = Inr r \<and> rate r = v"
    if "startswith (py_lower p) ''rate=''" "int_after CHR ''='' p = Inr v"
    using that by (simp add: parse_part_eq rate_set_by_def)
  have b: "\<exists>r. parse_part st q = Inr r \<and> bits_per_sample r = w"
    if "startswith q ''audio/L''" "int_after CHR ''L'' q = Inr w"
    using that by (simp add: parse_part_eq bits_set_by_def)
  have e: "parse_audio_mime_type (Some ''audio/L0;rate=-100'')
       = Inr \<lparr>bits_per_sample = 0, rate = - 100\<rparr>"
    by code_simp
  have conv: "convert_to_wav a m
          = encode_wav a (if bits_per_sample ps = 0 then 16 else bits_per_sample ps)
                         (if rate ps = 0 then 24000 else rate ps)"
    if "parse_audio_mime_type m = Inr ps"
    using that by (simp add: convert_to_wav_def py_or_def)
  have f: "f_block_align (header_fields n bps sr) = bps div 8"
    "f_byte_rate (header_fields n bps sr) = sr * (bps div 8)"
    by (simp_all add: header_fields_def Let_def)
  have neg: "encode_wav a bps sr = Inl StructError" if "bps < 0 \<or> sr < 0"
    using that by (auto simp: encode_wav_eq fields_fit_header_fields)
  from r b e conv f neg show ?thesis by blast
qed

theorem no_range_validation_witness:
  "startswith (py_lower ''rate=-100'') ''rate='' \<and> int_after CHR ''='' ''rate=-100'' = Inr (- 100)
   \<and> startswith ''audio/L0'' ''audio/L'' \<and> int_after CHR ''L'' ''audio/L0'' = Inr 0
   \<and> (\<exists>r. parse_part \<lparr>bits_per_sample = 16, rate = 24000\<rparr> ''rate=-100'' = Inr r
          \<and> rate r = - 100)
   \<and> (\<exists>r. parse_part \<lparr>bits_per_sample = 16, rate = 24000\<rparr> ''audio/L0'' = Inr r
          \<and> bits_per_sample r = 0)
   \<and> parse_audio_mime_type (Some ''audio/L0;rate=-100'')
       = Inr \<lparr>bits_per_sample = 0, rate = - 100\<rparr>
   \<and> convert_to_wav [] (Some ''audio/L0;rate=-100'') = encode_wav [] 16 (- 100)
   \<and> ((16 :: int) < 0 \<or> (- 100 :: int) < 0)
   \<and> encode_wav [] 16 (- 100) = Inl StructError"
proof -
  have h1: "startswith (py_lower ''rate=-100'') ''rate=''" by code_simp
  have h2: "int_after CHR ''='' ''rate=-100'' = Inr (- 100)" by code_simp
  have h3: "startswith ''audio/L0'' ''audio/L''" by code_simp
  have h4: "int_after CHR ''L'' ''audio/L0'' = Inr 0" by code_simp
  have h5: "(16 :: int) < 0 \<or> (- 100 :: int) < 0" by simp
  note t = no_range_validation [where p = "''rate=-100''" and v = "- 100" and q = "''audio/L0''"
      and w = 0 and st = "\<lparr>bits_per_sample = 16, rate = 24000\<rparr>"
      and m = "Some ''audio/L0;rate=-100''" and ps = "\<lparr>bits_per_sample = 0, rate = - 100\<rparr>"
      and a = "[]" and bps = 16 and sr = "- 100"]
  from t h1 h2 have c1: "\<exists>r. parse_part \<lparr>bits_per_sample = 16, rate = 24000\<rparr> ''rate=-100'' = Inr r
          \<and> rate r = - 100"
    by blast
  from t h3 h4 have c2: "\<exists>r. parse_part \<lparr>bits_per_sample = 16, rate = 24000\<rparr> ''audio/L0'' = Inr r
          \<and> bits_per_sample r = 0"
    by blast
  from t have c3: "parse_audio_mime_type (Some ''audio/L0;rate=-100'')
       = Inr \<lparr>bits_per_sample = 0, rate = - 100\<rparr>"
    by blast
  from t c3 have c4: "convert_to_wav [] (Some ''audio/L0;rate=-100'') = encode_wav [] 16 (- 100)"
    by simp
  from t h5 have c5: "encode_wav [] 16 (- 100) = Inl StructError" by blast
  from h1 h2 h3 h4 h5 c1 c2 c3 c4 c5 show ?thesis by blast
qed

text \<open>
  So the encoder does reject \<open>audio/L0;rate=-100\<close>, and a zero bit depth does not reach the
  header arithmetic: the output for \<open>audio/L0\<close> is the 16-bit one.
\<close>

theorem range_counterexample:
  "parse_audio_mime_type (Some ''audio/L0;rate=-100'')
       = Inr \<lparr>bits_per_sample = 0, rate = - 100\<rparr>
   \<and> convert_to_wav [1, 2] (Some ''audio/L0;rate=-100'') = Inl StructError
   \<and> parse_audio_mime_type (Some ''audio/L0'') = Inr \<lparr>bits_per_sample = 0, rate = 24000\<rparr>
   \<and> convert_to_wav [1, 2] (Some ''audio/L0'') = encode_wav [1, 2] 16 24000
   \<and> encode_wav [1, 2] 16 24000 \<noteq> encode_wav [1, 2] 0 24000"
proof -
  have p: "parse_audio_mime_type (Some ''audio/L0;rate=-100'')
       = Inr \<lparr>bits_per_sample = 0, rate = - 100\<rparr>"
    by code_simp
  have e: "encode_wav [1, 2] 16 (- 100) = Inl StructError"
    by (simp add: encode_wav_eq fields_fit_header_fields)
  have c: "convert_to_wav [1, 2] (Some ''audio/L0;rate=-100'') = Inl StructError"
    using p e by (simp add: convert_to_wav_def py_or_def)
  have p0: "parse_audio_mime_type (Some ''audio/L0'') = Inr \<lparr>bits_per_sample = 0, rate = 24000\<rparr>"
    by code_simp
  have c0: "convert_to_wav [1, 2] (Some ''audio/L0'') = encode_wav [1, 2] 16 24000"
    using p0 by (simp add: convert_to_wav_def py_or_def)
  have d: "encode_wav [1, 2] 16 24000 \<noteq> encode_wav [1, 2] 0 24000"
    by code_simp
  from p c p0 c0 d show ?thesis by simp
qed

section \<open>Properties of the choice of payload\<close>




end
